theory Spec2Isabelle
  imports Main "HOL-Library.Sublist"
begin

section \<open>The offline cache gateway of sw.js\<close>

text \<open>
  The service worker \<^verbatim>\<open>sw.js\<close> registers four listeners (install, activate, fetch,
  message) over three host interfaces: the network (\<^verbatim>\<open>fetch\<close>), the cache storage
  (\<^verbatim>\<open>caches\<close>) and the console. The embedding keeps the listeners and the three
  \<^verbatim>\<open>handle...\<close> functions as they are written and makes the host explicit:
  \<^item> the cache storage and the sequence of host calls made so far are the state
    (\<open>world\<close>), passed in and returned;
  \<^item> what the host answers (network outcome per URL, whether a storage call is
    rejected) is a parameter (\<open>host\<close>), so every theorem quantifies over it;
  \<^item> an awaited promise is a state transformer returning either the rejection
    (\<open>Inl\<close>) or the value (\<open>Inr\<close>); \<^verbatim>\<open>try/catch\<close> is a combinator on those.
\<close>

subsection \<open>Data\<close>

text \<open>A response: status line and body (headers play no part in sw.js).\<close>

record response =
  status :: nat
  statusText :: string
  body :: string

text \<open>\<^verbatim>\<open>Response.ok\<close>: the status is in the range 200..299.\<close>

definition ok :: "response \<Rightarrow> bool" where
  "ok r = (200 \<le> status r \<and> status r \<le> 299)"

text \<open>
  What \<^verbatim>\<open>caches.match\<close> and the handlers resolve to: a Response object, or
  \<^verbatim>\<open>undefined\<close> (a lookup that finds nothing).
\<close>

datatype jsval = Undefined | Resp response

text \<open>
  A request, as far as sw.js reads it: \<^verbatim>\<open>request.method\<close> (the field \<open>method'\<close>),
  \<^verbatim>\<open>request.url\<close> (the serialized absolute URL) and \<^verbatim>\<open>request.destination\<close>.
\<close>

record request =
  method' :: string
  url :: string
  destination :: string

text \<open>Exception values: what a rejected promise or a \<^verbatim>\<open>throw\<close> carries.\<close>

datatype exn = TypeError string | Error string | StorageError

text \<open>
  One cache is a list of (URL, response) pairs, with at most one entry per URL up to
  its fragment; the cache storage is the list of named caches in creation order, as
  \<^verbatim>\<open>caches.keys()\<close> enumerates it.
\<close>

type_synonym cache = "(string \<times> response) list"

type_synonym cache_storage = "(string \<times> cache) list"

text \<open>The host calls a listener makes, in the order it makes them.\<close>

datatype event =
    ConsoleLog "string list"
  | ConsoleError string exn
  | Fetch string
  | CachesOpen string
  | CachesMatch string
  | CachePut string string response
  | CachesKeys
  | CachesDelete string
  | SkipWaiting
  | ClientsClaim
  | PostMessage nat "(string \<times> string) list"

record world =
  caches :: cache_storage
  trace :: "event list"

text \<open>
  The host's answers. \<open>origin\<close> is \<^verbatim>\<open>self.location.origin\<close>; \<open>network u\<close> is the
  outcome of fetching URL \<open>u\<close> (\<open>None\<close>: the fetch is rejected, a network error);
  \<open>match_fails k\<close> and \<open>open_fails\<close> say whether the storage rejects
  \<^verbatim>\<open>caches.match\<close> on key \<open>k\<close> and \<^verbatim>\<open>caches.open\<close>.
\<close>

record host =
  origin :: string
  network :: "string \<Rightarrow> response option"
  match_fails :: "string \<Rightarrow> bool"
  open_fails :: bool

subsection \<open>Promises and try/catch\<close>

type_synonym 'a promise = "world \<Rightarrow> (exn + 'a) \<times> world"

definition resolved :: "'a \<Rightarrow> 'a promise" where
  "resolved a w = (Inr a, w)"

definition rejected :: "exn \<Rightarrow> 'a promise" where
  "rejected e w = (Inl e, w)"

text \<open>\<open>await m f\<close>: run \<open>m\<close>; a rejection is thrown on, a value is handed to \<open>f\<close>.\<close>

definition await :: "'a promise \<Rightarrow> ('a \<Rightarrow> 'b promise) \<Rightarrow> 'b promise" where
  "await m f w = (case m w of (Inl e, w') \<Rightarrow> (Inl e, w') | (Inr a, w') \<Rightarrow> f a w')"

definition try_catch :: "'a promise \<Rightarrow> (exn \<Rightarrow> 'a promise) \<Rightarrow> 'a promise" where
  "try_catch m handler w =
     (case m w of (Inl e, w') \<Rightarrow> handler e w' | (Inr a, w') \<Rightarrow> (Inr a, w'))"

definition emit :: "event \<Rightarrow> world \<Rightarrow> world" where
  "emit ev w = w\<lparr>trace := trace w @ [ev]\<rparr>"

definition console_log :: "string list \<Rightarrow> unit promise" where
  "console_log msg w = (Inr (), emit (ConsoleLog msg) w)"

definition console_error :: "string \<Rightarrow> exn \<Rightarrow> unit promise" where
  "console_error msg e w = (Inr (), emit (ConsoleError msg e) w)"

subsection \<open>The host interfaces\<close>

text \<open>\<^verbatim>\<open>fetch(request)\<close>: rejected with a TypeError on a network error.\<close>

definition fetch :: "host \<Rightarrow> string \<Rightarrow> response promise" where
  "fetch h u w =
     (case network h u of
        None \<Rightarrow> (Inl (TypeError ''Failed to fetch''), emit (Fetch u) w)
      | Some r \<Rightarrow> (Inr r, emit (Fetch u) w))"

text \<open>A path of sw.js (\<^verbatim>\<open>'/offline.html'\<close>) names the URL under the worker's origin.\<close>

definition resolve_url :: "host \<Rightarrow> string \<Rightarrow> string" where
  "resolve_url h p = origin h @ p"

text \<open>
  The Cache API compares the URL of a request with the URL of a stored entry with the
  fragments left out: a request for \<^verbatim>\<open>/#top\<close> matches the entry stored for \<^verbatim>\<open>/\<close>.
\<close>

definition strip_fragment :: "string \<Rightarrow> string" where
  "strip_fragment u = takeWhile (\<lambda>c. c \<noteq> CHR ''#'') u"

definition same_resource :: "string \<Rightarrow> string \<Rightarrow> bool" where
  "same_resource a b = (strip_fragment a = strip_fragment b)"

text \<open>The first matching entry of one cache.\<close>

fun cache_match :: "cache \<Rightarrow> string \<Rightarrow> response option" where
  "cache_match [] k = None"
| "cache_match ((k', r) # c) k = (if same_resource k' k then Some r else cache_match c k)"

text \<open>\<^verbatim>\<open>caches.match\<close> searches every cache, in creation order.\<close>

fun caches_lookup :: "cache_storage \<Rightarrow> string \<Rightarrow> response option" where
  "caches_lookup [] k = None"
| "caches_lookup ((n, c) # cs) k =
     (case cache_match c k of Some r \<Rightarrow> Some r | None \<Rightarrow> caches_lookup cs k)"

definition caches_match :: "host \<Rightarrow> string \<Rightarrow> response option promise" where
  "caches_match h k w =
     (if match_fails h k then (Inl StorageError, emit (CachesMatch k) w)
      else (Inr (caches_lookup (caches w) k), emit (CachesMatch k) w))"

definition to_js :: "response option \<Rightarrow> jsval" where
  "to_js v = (case v of None \<Rightarrow> Undefined | Some r \<Rightarrow> Resp r)"

text \<open>\<^verbatim>\<open>caches.open(name)\<close> creates the cache when it is absent; the handle is its name.\<close>

definition caches_open :: "host \<Rightarrow> string \<Rightarrow> string promise" where
  "caches_open h n w =
     (if open_fails h then (Inl StorageError, emit (CachesOpen n) w)
      else (Inr n, emit (CachesOpen n)
              (w\<lparr>caches := (if n \<in> set (map fst (caches w)) then caches w
                              else caches w @ [(n, [])])\<rparr>)))"

text \<open>
  \<^verbatim>\<open>cache.put(request, response)\<close>: every entry the request matches is removed and
  the pair of the request's URL and the whole response is appended, in one step. The
  Cache API rejects a partial response (status 206); sw.js never awaits the promise of
  \<open>put\<close>, so that rejection reaches nobody and the store stays as it was.
\<close>

definition put_entry :: "cache \<Rightarrow> string \<Rightarrow> response \<Rightarrow> cache" where
  "put_entry c k r = filter (\<lambda>(k', _). \<not> same_resource k' k) c @ [(k, r)]"

definition cache_put :: "string \<Rightarrow> string \<Rightarrow> response \<Rightarrow> unit promise" where
  "cache_put n k r w =
     (Inr (), emit (CachePut n k r)
        (if status r = 206 then w
         else w\<lparr>caches := map (\<lambda>(n', c). if n' = n then (n', put_entry c k r) else (n', c))
                               (caches w)\<rparr>))"

text \<open>
  \<^verbatim>\<open>cache.addAll(urls)\<close> of the Cache API: every URL is fetched; when one fetch is
  rejected or one response is not ok (or is partial), the promise is rejected with a
  TypeError and nothing is stored; otherwise every response is stored.
\<close>

fun fetch_all :: "host \<Rightarrow> string list \<Rightarrow> (string \<times> response) list option" where
  "fetch_all h [] = Some []"
| "fetch_all h (u # us) =
     (case network h u of
        None \<Rightarrow> None
      | Some r \<Rightarrow>
          if ok r \<and> status r \<noteq> 206 then map_option ((#) (u, r)) (fetch_all h us)
          else None)"

fun put_all :: "string \<Rightarrow> (string \<times> response) list \<Rightarrow> world \<Rightarrow> world" where
  "put_all n [] w = w"
| "put_all n ((u, r) # es) w = put_all n es (snd (cache_put n u r w))"

definition cache_addAll :: "host \<Rightarrow> string \<Rightarrow> string list \<Rightarrow> unit promise" where
  "cache_addAll h n us w =
     (let w1 = foldl (\<lambda>w u. emit (Fetch u) w) w us in
      case fetch_all h us of
        None \<Rightarrow> (Inl (TypeError ''Request failed''), w1)
      | Some es \<Rightarrow> (Inr (), put_all n es w1))"

definition caches_delete :: "string \<Rightarrow> world \<Rightarrow> world" where
  "caches_delete n w =
     emit (CachesDelete n) (w\<lparr>caches := filter (\<lambda>(n', _). n' \<noteq> n) (caches w)\<rparr>)"

subsection \<open>Constants of sw.js\<close>

definition CACHE_NAME :: string where
  "CACHE_NAME = ''eternadata-v1.0.0''"

definition OFFLINE_PAGE :: string where
  "OFFLINE_PAGE = ''/offline.html''"

definition STATIC_CACHE :: "string list" where
  "STATIC_CACHE =
     [''/'', ''/index.html'', ''/assets/styles.css'', ''/assets/script.js'',
      ''/assets/logo.svg'', ''/assets/favicon.svg'', ''/offline.html'']"

subsection \<open>Install and activate\<close>

text \<open>
  The install listener. \<^verbatim>\<open>caches.open(CACHE_NAME)\<close> is called while the argument of
  \<^verbatim>\<open>event.waitUntil\<close> is evaluated, then \<^verbatim>\<open>self.skipWaiting()\<close>, and the listener
  returns; the callbacks of the chain run afterwards on the outcome of the open
  (\<open>settled\<close>). The \<^verbatim>\<open>.catch\<close> of the chain logs the rejection and resolves.
\<close>

definition settled :: "exn + 'a \<Rightarrow> 'a promise" where
  "settled v w = (v, w)"

definition install :: "host \<Rightarrow> world \<Rightarrow> world" where
  "install h w =
     (let w1 = emit (ConsoleLog [''ServiceWorker installing...'']) w;
          (opening, w2) = caches_open h CACHE_NAME w1;
          w3 = emit SkipWaiting w2
      in snd (try_catch
                (await (settled opening) (\<lambda>cache.
                 await (console_log [''Caching static resources'']) (\<lambda>_.
                 cache_addAll h cache (map (resolve_url h) STATIC_CACHE))))
                (\<lambda>error. console_error ''Failed to cache resources:'' error) w3))"

text \<open>
  The activate listener, for an activation that completes (\<^verbatim>\<open>caches.keys\<close> and
  \<^verbatim>\<open>caches.delete\<close> are not rejected): every cache whose name is not
  \<open>CACHE_NAME\<close> is deleted, then the clients are claimed.
\<close>

definition activate_step :: "world \<Rightarrow> string \<Rightarrow> world" where
  "activate_step w cacheName =
     (if cacheName \<noteq> CACHE_NAME
      then caches_delete cacheName (emit (ConsoleLog [''Deleting old cache:'', cacheName]) w)
      else w)"

definition activate :: "world \<Rightarrow> world" where
  "activate w =
     (let w1 = emit (ConsoleLog [''ServiceWorker activating...'']) w;
          cacheNames = map fst (caches w1);
          w2 = foldl activate_step (emit CachesKeys w1) cacheNames
      in emit ClientsClaim w2)"

subsection \<open>Fetch handling\<close>

text \<open>
  The three functions of sw.js, statement by statement. Both strategies call
  \<^verbatim>\<open>cache.put\<close> without awaiting it; \<open>cache_put\<close> never rejects, so sequencing it
  with \<open>await\<close> only fixes its place in the order of calls. A \<^verbatim>\<open>return\<close> of the
  promise of \<^verbatim>\<open>caches.match\<close> from a \<^verbatim>\<open>catch\<close> block hands its rejection to the
  caller.
\<close>

definition handleDocumentRequest :: "host \<Rightarrow> request \<Rightarrow> jsval promise" where
  "handleDocumentRequest h request =
     try_catch
       (await (fetch h (url request)) (\<lambda>networkResponse.
          if ok networkResponse then
            await (caches_open h CACHE_NAME) (\<lambda>cache.
            await (cache_put cache (url request) networkResponse) (\<lambda>_.
            resolved (Resp networkResponse)))
          else rejected (Error ''Network response not ok'')))
       (\<lambda>error.
          await (caches_match h (url request)) (\<lambda>cachedResponse.
            case cachedResponse of
              Some c \<Rightarrow> resolved (Resp c)
            | None \<Rightarrow>
                await (caches_match h (resolve_url h OFFLINE_PAGE)) (\<lambda>r. resolved (to_js r))))"

definition handleAssetRequest :: "host \<Rightarrow> request \<Rightarrow> jsval promise" where
  "handleAssetRequest h request =
     await (caches_match h (url request)) (\<lambda>cachedResponse.
       case cachedResponse of
         Some c \<Rightarrow> resolved (Resp c)
       | None \<Rightarrow>
           try_catch
             (await (fetch h (url request)) (\<lambda>networkResponse.
                await (if ok networkResponse then
                         await (caches_open h CACHE_NAME) (\<lambda>cache.
                           cache_put cache (url request) networkResponse)
                       else resolved ()) (\<lambda>_.
                resolved (Resp networkResponse))))
             (\<lambda>error. resolved (Resp \<lparr>status = 404, statusText = ''Not Found'',
                                      body = ''Asset not available offline''\<rparr>)))"

definition handleRequest :: "host \<Rightarrow> request \<Rightarrow> jsval promise" where
  "handleRequest h request =
     try_catch
       (if destination request = ''document'' then handleDocumentRequest h request
        else handleAssetRequest h request)
       (\<lambda>error.
          await (console_error ''Request handling error:'' error) (\<lambda>_.
            if destination request = ''document'' then
              await (caches_match h (resolve_url h OFFLINE_PAGE)) (\<lambda>r. resolved (to_js r))
            else resolved (Resp \<lparr>status = 503, statusText = '''', body = ''Offline''\<rparr>)))"

text \<open>
  The fetch listener either returns without calling \<^verbatim>\<open>respondWith\<close> (the request
  takes the browser's default path) or responds with the promise of \<open>handleRequest\<close>.
\<close>

datatype fetch_result = PassThrough | RespondWith "exn + jsval"

definition fetch_listener :: "host \<Rightarrow> request \<Rightarrow> world \<Rightarrow> fetch_result \<times> world" where
  "fetch_listener h request w =
     (if method' request \<noteq> ''GET'' then (PassThrough, w)
      else if \<not> prefix (origin h) (url request) then (PassThrough, w)
      else (case handleRequest h request w of (v, w') \<Rightarrow> (RespondWith v, w')))"

subsection \<open>Messages\<close>

text \<open>
  \<^verbatim>\<open>event.data\<close> is absent (\<open>NoData\<close>) or an object whose \<^verbatim>\<open>type\<close> is absent or
  a string; \<^verbatim>\<open>event.ports\<close> is the list of reply ports. The guard
  \<^verbatim>\<open>event.data && event.data.type\<close> is false for a missing and for an empty type.
  \<^verbatim>\<open>event.ports[0].postMessage\<close> on an empty list throws a TypeError.
\<close>

datatype msg_data = NoData | Data "string option"

record message_event =
  data :: msg_data
  ports :: "nat list"

definition message :: "message_event \<Rightarrow> unit promise" where
  "message ev w =
     (case data ev of
        NoData \<Rightarrow> (Inr (), w)
      | Data None \<Rightarrow> (Inr (), w)
      | Data (Some t) \<Rightarrow>
          if t = '''' then (Inr (), w)
          else if t = ''SKIP_WAITING'' then (Inr (), emit SkipWaiting w)
          else if t = ''GET_VERSION'' then
            (case ports ev of
               [] \<Rightarrow> (Inl (TypeError ''Cannot read properties of undefined''), w)
             | p # _ \<Rightarrow> (Inr (), emit (PostMessage p [(''version'', CACHE_NAME)]) w))
          else (Inr (), emit (ConsoleLog [''Unknown message type:'', t]) w))"

subsection \<open>Notions the properties are stated with\<close>

text \<open>A value that is a Response object (neither a rejection nor \<^verbatim>\<open>undefined\<close>).\<close>

fun is_response :: "exn + jsval \<Rightarrow> bool" where
  "is_response (Inr (Resp r)) = True"
| "is_response (Inr Undefined) = False"
| "is_response (Inl e) = False"

text \<open>
  The origin of a serialized http(s) URL, in the words of the admission property
  (scheme, host and port): the text up to the end of the authority. sw.js itself never
  computes it; it compares prefixes.
\<close>

definition url_origin :: "string \<Rightarrow> string" where
  "url_origin u =
     (let scheme = takeWhile (\<lambda>c. c \<noteq> CHR '':'') u;
          rest = drop (length scheme + 3) u
      in scheme @ ''://'' @ takeWhile (\<lambda>c. c \<notin> set ''/?#'') rest)"

text \<open>The named cache of a storage (empty when there is none of that name).\<close>

fun cache_of :: "cache_storage \<Rightarrow> string \<Rightarrow> cache" where
  "cache_of [] n = []"
| "cache_of ((n', c) # cs) n = (if n' = n then c else cache_of cs n)"

text \<open>
  A complete, successful response: the status is ok and the response is not a part of
  the resource (206 Partial Content lies in the ok range).
\<close>

definition complete_success :: "response \<Rightarrow> bool" where
  "complete_success r = (ok r \<and> status r \<noteq> 206)"

text \<open>The entries of the whole storage: cache name, URL and stored response.\<close>

definition entries :: "world \<Rightarrow> (string \<times> string \<times> response) list" where
  "entries w = concat (map (\<lambda>(n, c). map (\<lambda>(k, r). (n, k, r)) c) (caches w))"

text \<open>Every stored snapshot is a complete, successful response.\<close>

definition store_ok :: "world \<Rightarrow> bool" where
  "store_ok w = list_all (\<lambda>(n, k, r). complete_success r) (entries w)"

text \<open>
  The entries a host's network can give rise to: under a URL, the whole response the
  network answers for that URL (status line and body as received), when that response
  is complete and successful.
\<close>

definition whole_responses :: "host \<Rightarrow> (string \<times> string \<times> response) set" where
  "whole_responses h = {(n, k, r). network h k = Some r \<and> complete_success r}"

text \<open>
  The same request handled once per host answer of the list, one handling after the
  other, each on the world the previous one left.
\<close>

fun handle_repeatedly :: "host list \<Rightarrow> request \<Rightarrow> world \<Rightarrow> (exn + jsval) list \<times> world" where
  "handle_repeatedly [] request w = ([], w)"
| "handle_repeatedly (h # hs) request w =
     (case handleRequest h request w of
        (v, w') \<Rightarrow> (case handle_repeatedly hs request w' of (vs, w'') \<Rightarrow> (v # vs, w'')))"

subsection \<open>Concrete hosts, stores and requests\<close>

definition site :: string where
  "site = ''https://eternadata.github.io''"

definition page200 :: response where
  "page200 = \<lparr>status = 200, statusText = ''OK'', body = ''<html>home</html>''\<rparr>"

definition offline_page :: response where
  "offline_page = \<lparr>status = 200, statusText = ''OK'', body = ''<html>offline</html>''\<rparr>"

definition error500 :: response where
  "error500 = \<lparr>status = 500, statusText = ''Internal Server Error'', body = []\<rparr>"

definition partial206 :: response where
  "partial206 = \<lparr>status = 206, statusText = ''Partial Content'', body = ''<html>ho''\<rparr>"

definition fresh :: world where
  "fresh = \<lparr>caches = [], trace = []\<rparr>"

text \<open>Online: every URL answers 200.\<close>

definition online_host :: host where
  "online_host = \<lparr>origin = site, network = (\<lambda>u. Some page200),
                    match_fails = (\<lambda>k. False), open_fails = False\<rparr>"

text \<open>Offline: every fetch is rejected; the storage works.\<close>

definition offline_host :: host where
  "offline_host = \<lparr>origin = site, network = (\<lambda>u. None),
                     match_fails = (\<lambda>k. False), open_fails = False\<rparr>"

text \<open>Online, but the fetch of \<^verbatim>\<open>/offline.html\<close> is rejected.\<close>

definition partial_host :: host where
  "partial_host = \<lparr>origin = site,
                     network = (\<lambda>u. if u = site @ ''/offline.html'' then None else Some page200),
                     match_fails = (\<lambda>k. False), open_fails = False\<rparr>"

text \<open>The server answers 500 to everything.\<close>

definition failing_server_host :: host where
  "failing_server_host = \<lparr>origin = site, network = (\<lambda>u. Some error500),
                            match_fails = (\<lambda>k. False), open_fails = False\<rparr>"

text \<open>The server answers every request with a part of the resource (206).\<close>

definition range_host :: host where
  "range_host = \<lparr>origin = site, network = (\<lambda>u. Some partial206),
                   match_fails = (\<lambda>k. False), open_fails = False\<rparr>"

text \<open>Offline, and the storage rejects every call.\<close>

definition broken_storage_host :: host where
  "broken_storage_host = \<lparr>origin = site, network = (\<lambda>u. None),
                            match_fails = (\<lambda>k. True), open_fails = True\<rparr>"

definition home_request :: request where
  "home_request = \<lparr>method' = ''GET'', url = site @ ''/'', destination = ''document''\<rparr>"

definition logo_request :: request where
  "logo_request = \<lparr>method' = ''GET'', url = site @ ''/assets/logo.svg'', destination = ''image''\<rparr>"

text \<open>A script on another origin whose URL begins with the text of the worker's origin.\<close>

definition lookalike_request :: request where
  "lookalike_request =
     \<lparr>method' = ''GET'', url = ''https://eternadata.github.io.evil.example/app.js'',
      destination = ''script''\<rparr>"

text \<open>A store of the current version holding the home page, the logo and the offline page.\<close>

definition stocked :: world where
  "stocked =
     \<lparr>caches = [(CACHE_NAME, [(site @ ''/'', page200), (site @ ''/assets/logo.svg'', page200),
                                (site @ ''/offline.html'', offline_page)])],
      trace = []\<rparr>"

text \<open>Two versions side by side, as before an activation.\<close>

definition two_versions :: world where
  "two_versions =
     \<lparr>caches = [(''eternadata-v0.9.0'', [(site @ ''/'', page200)]),
                (CACHE_NAME, [(site @ ''/offline.html'', offline_page)])],
      trace = []\<rparr>"

subsection \<open>Auxiliary notions of the proofs\<close>

text \<open>
  The world an install has reached when the store is open and the batch of the static
  manifest is about to be fetched.
\<close>

definition opened :: "world \<Rightarrow> world" where
  "opened w =
     emit (ConsoleLog [''Caching static resources''])
       (emit SkipWaiting
          (emit (CachesOpen CACHE_NAME)
             ((emit (ConsoleLog [''ServiceWorker installing...'']) w)
                \<lparr>caches := (if CACHE_NAME \<in> set (map fst (caches w)) then caches w
                            else caches w @ [(CACHE_NAME, [])])\<rparr>)))"

text \<open>
  Whether it resolves or rejects, a promise leaves in the store only entries that were
  there before and whole responses of the network.
\<close>

definition writes_whole :: "host \<Rightarrow> 'a promise \<Rightarrow> bool" where
  "writes_whole h m =
     (\<forall>w. set (entries (snd (m w))) \<subseteq> set (entries w) \<union> whole_responses h)"

section \<open>Properties\<close>

subsection \<open>Unfolding sets and basic facts\<close>

lemmas promise_defs = resolved_def rejected_def settled_def await_def try_catch_def
  console_log_def console_error_def

lemmas host_defs = fetch_def caches_match_def caches_open_def cache_put_def to_js_def

lemmas example_defs = site_def page200_def offline_page_def error500_def partial206_def
  fresh_def online_host_def offline_host_def partial_host_def failing_server_host_def
  range_host_def strip_fragment_def same_resource_def
  broken_storage_host_def home_request_def logo_request_def lookalike_request_def
  stocked_def two_versions_def CACHE_NAME_def OFFLINE_PAGE_def STATIC_CACHE_def
  resolve_url_def ok_def

lemmas gateway_defs = install_def fetch_listener_def handleRequest_def
  handleDocumentRequest_def handleAssetRequest_def cache_addAll_def

lemma caches_emit [simp]: "caches (emit ev w) = caches w"
  by (simp add: emit_def)

lemma trace_emit [simp]: "trace (emit ev w) = trace w @ [ev]"
  by (simp add: emit_def)

lemma trace_foldl_emit [simp]:
  "trace (foldl (\<lambda>w u. emit (Fetch u) w) w us) = trace w @ map Fetch us"
  by (induction us arbitrary: w) simp_all

lemma foldl_emit_caches [simp]:
  "caches (foldl (\<lambda>w u. emit (Fetch u) w) w us) = caches w"
  by (induction us arbitrary: w) simp_all

subsection \<open>The three outcomes of an install\<close>

lemma install_cases:
  "install h w =
     (if open_fails h then
        emit (ConsoleError ''Failed to cache resources:'' StorageError)
          (emit SkipWaiting
             (emit (CachesOpen CACHE_NAME)
                (emit (ConsoleLog [''ServiceWorker installing...'']) w)))
      else
        (case fetch_all h (map (resolve_url h) STATIC_CACHE) of
           None \<Rightarrow>
             emit (ConsoleError ''Failed to cache resources:'' (TypeError ''Request failed''))
               (foldl (\<lambda>w u. emit (Fetch u) w) (opened w) (map (resolve_url h) STATIC_CACHE))
         | Some es \<Rightarrow>
             put_all CACHE_NAME es
               (foldl (\<lambda>w u. emit (Fetch u) w) (opened w) (map (resolve_url h) STATIC_CACHE))))"
  by (simp add: install_def Let_def promise_defs caches_open_def cache_addAll_def opened_def
      emit_def split: option.split)

lemma caches_opened:
  "caches (opened w) =
     (if CACHE_NAME \<in> set (map fst (caches w)) then caches w else caches w @ [(CACHE_NAME, [])])"
  by (simp add: opened_def)

lemma names_opened:
  "CACHE_NAME \<in> set (map fst (caches (opened w)))"
  by (simp add: opened_def)

lemma names_cache_put [simp]:
  "map fst (caches (snd (cache_put n k r w))) = map fst (caches w)"
  by (simp add: cache_put_def case_prod_unfold comp_def)

lemma names_put_all [simp]:
  "map fst (caches (put_all n es w)) = map fst (caches w)"
  by (induction n es w rule: put_all.induct) simp_all

lemma name_set_put_all [simp]:
  "fst ` set (caches (put_all n es w)) = fst ` set (caches w)"
proof -
  have "set (map fst (caches (put_all n es w))) = set (map fst (caches w))"
    by (simp only: names_put_all)
  then show ?thesis by (simp only: set_map)
qed

lemma names_cache_addAll [simp]:
  "map fst (caches (snd (cache_addAll h n us w))) = map fst (caches w)"
  by (simp add: cache_addAll_def Let_def split: option.split)

lemma install_creates_store:
  "\<not> open_fails h \<Longrightarrow> CACHE_NAME \<in> set (map fst (caches (install h w)))"
  using names_opened [of w]
  by (simp add: install_cases split: option.split)

lemma fetch_all_None:
  "u \<in> set us \<Longrightarrow> network h u = None \<Longrightarrow> fetch_all h us = None"
  by (induction us) (auto split: option.split)

lemma caches_lookup_append_empty [simp]:
  "caches_lookup (cs @ [(n, [])]) k = caches_lookup cs k"
  by (induction cs k rule: caches_lookup.induct) (simp_all split: option.split)

lemma cache_of_append_empty [simp]:
  "cache_of (cs @ [(n, [])]) m = cache_of cs m"
  by (induction cs m rule: cache_of.induct) simp_all

subsection \<open>What an activation retains\<close>

lemma caches_activate_step:
  "caches (activate_step w n) =
     filter (\<lambda>(n', c). n' = CACHE_NAME \<or> n' \<noteq> n) (caches w)"
proof (cases "n = CACHE_NAME")
  case True
  then have "filter (\<lambda>(n', c). n' = CACHE_NAME \<or> n' \<noteq> n) (caches w) = caches w"
    by (simp add: case_prod_unfold)
  with True show ?thesis by (simp add: activate_step_def)
next
  case False
  then have "(\<lambda>(n', c::cache). n' = CACHE_NAME \<or> n' \<noteq> n) = (\<lambda>(n', c). n' \<noteq> n)"
    by auto
  with False show ?thesis by (simp add: activate_step_def caches_delete_def)
qed

lemma caches_foldl_activate_step:
  "caches (foldl activate_step w ns) =
     filter (\<lambda>(n, c). n = CACHE_NAME \<or> n \<notin> set ns) (caches w)"
proof (induction ns arbitrary: w)
  case Nil
  then show ?case by simp
next
  case (Cons n ns)
  have "caches (foldl activate_step (activate_step w n) ns) =
          filter (\<lambda>(n', c). n' = CACHE_NAME \<or> n' \<notin> set ns) (caches (activate_step w n))"
    by (rule Cons.IH)
  also have "\<dots> = filter (\<lambda>(n', c). n' = CACHE_NAME \<or> n' \<notin> set (n # ns)) (caches w)"
    by (auto simp add: caches_activate_step intro: filter_cong)
  finally show ?case by simp
qed

lemma caches_activate:
  "caches (activate w) = filter (\<lambda>(n, c). n = CACHE_NAME) (caches w)"
proof -
  have "caches (activate w) =
          filter (\<lambda>(n, c). n = CACHE_NAME \<or> n \<notin> set (map fst (caches w))) (caches w)"
    by (simp add: activate_def Let_def caches_foldl_activate_step)
  also have "\<dots> = filter (\<lambda>(n, c). n = CACHE_NAME) (caches w)"
    by (rule filter_cong) force+
  finally show ?thesis .
qed

subsection \<open>What a promise writes into the store\<close>

lemma entries_emit [simp]: "entries (emit ev w) = entries w"
  by (simp add: entries_def)

lemma entries_foldl_emit [simp]:
  "entries (foldl (\<lambda>w u. emit (Fetch u) w) w us) = entries w"
  by (simp add: entries_def)

lemma store_ok_subset:
  assumes "set (entries w') \<subseteq> set (entries w) \<union> whole_responses h" and "store_ok w"
  shows "store_ok w'"
  using assms by (auto simp add: store_ok_def list_all_iff whole_responses_def)

lemma set_entries_put:
  "set (concat (map (\<lambda>(n, c). map (\<lambda>(k, r). (n, k, r)) c)
          (map (\<lambda>(n', c). if n' = n then (n', put_entry c k r) else (n', c)) cs)))
   \<subseteq> set (concat (map (\<lambda>(n, c). map (\<lambda>(k, r). (n, k, r)) c) cs)) \<union> {(n, k, r)}"
  by (induction cs) (auto simp add: put_entry_def split: if_splits)

lemma entries_cache_put:
  "set (entries (snd (cache_put n k r w))) \<subseteq> set (entries w) \<union> {(n, k, r)}"
  using set_entries_put [of n k r "caches w"]
  by (auto simp add: cache_put_def entries_def)

lemma entries_cache_put_partial:
  "status r = 206 \<Longrightarrow> entries (snd (cache_put n k r w)) = entries w"
  by (simp add: cache_put_def)

lemma writes_wholeD:
  "writes_whole h m \<Longrightarrow> set (entries (snd (m w))) \<subseteq> set (entries w) \<union> whole_responses h"
  by (simp add: writes_whole_def)

lemma writes_whole_resolved [simp]: "writes_whole h (resolved a)"
  by (simp add: writes_whole_def resolved_def)

lemma writes_whole_rejected [simp]: "writes_whole h (rejected e)"
  by (simp add: writes_whole_def rejected_def)

lemma writes_whole_console_error [simp]: "writes_whole h (console_error msg e)"
  by (simp add: writes_whole_def console_error_def)

lemma writes_whole_caches_match [simp]: "writes_whole h (caches_match h' k)"
  by (simp add: writes_whole_def caches_match_def)

lemma writes_whole_caches_open [simp]: "writes_whole h (caches_open h' n)"
  by (simp add: writes_whole_def caches_open_def entries_def)

lemma writes_whole_cache_put:
  assumes "network h k = Some r" and "ok r"
  shows "writes_whole h (cache_put n k r)"
proof (cases "status r = 206")
  case True
  then show ?thesis by (simp add: writes_whole_def entries_cache_put_partial)
next
  case False
  with assms have "(n, k, r) \<in> whole_responses h"
    by (simp add: whole_responses_def complete_success_def)
  with entries_cache_put [of n k r] show ?thesis
    by (fastforce simp add: writes_whole_def)
qed

lemma writes_whole_await:
  assumes "writes_whole h m" and "\<And>a. writes_whole h (f a)"
  shows "writes_whole h (await m f)"
  unfolding writes_whole_def
proof
  fix w
  obtain v w' where mw: "m w = (v, w')" by (cases "m w")
  from writes_wholeD [OF assms(1), of w] mw
  have w': "set (entries w') \<subseteq> set (entries w) \<union> whole_responses h"
    by simp
  show "set (entries (snd (await m f w))) \<subseteq> set (entries w) \<union> whole_responses h"
  proof (cases v)
    case (Inl e)
    with mw w' show ?thesis by (simp add: await_def)
  next
    case (Inr a)
    from writes_wholeD [OF assms(2) [of a], of w']
    have "set (entries (snd (f a w'))) \<subseteq> set (entries w') \<union> whole_responses h" .
    with mw Inr w' show ?thesis by (auto simp add: await_def)
  qed
qed

text \<open>What is awaited from \<open>fetch\<close> is the network's response for that URL.\<close>

lemma writes_whole_await_fetch:
  assumes "\<And>r. network h u = Some r \<Longrightarrow> writes_whole h (f r)"
  shows "writes_whole h (await (fetch h u) f)"
  unfolding writes_whole_def
proof
  fix w
  show "set (entries (snd (await (fetch h u) f w))) \<subseteq> set (entries w) \<union> whole_responses h"
  proof (cases "network h u")
    case None
    then show ?thesis by (simp add: await_def fetch_def)
  next
    case (Some r)
    from writes_wholeD [OF assms [OF Some], of "emit (Fetch u) w"]
    have "set (entries (snd (f r (emit (Fetch u) w)))) \<subseteq>
            set (entries w) \<union> whole_responses h"
      by simp
    with Some show ?thesis by (simp add: await_def fetch_def)
  qed
qed

lemma writes_whole_try_catch:
  assumes "writes_whole h m" and "\<And>e. writes_whole h (handler e)"
  shows "writes_whole h (try_catch m handler)"
  unfolding writes_whole_def
proof
  fix w
  obtain v w' where mw: "m w = (v, w')" by (cases "m w")
  from writes_wholeD [OF assms(1), of w] mw
  have w': "set (entries w') \<subseteq> set (entries w) \<union> whole_responses h"
    by simp
  show "set (entries (snd (try_catch m handler w))) \<subseteq> set (entries w) \<union> whole_responses h"
  proof (cases v)
    case (Inl e)
    from writes_wholeD [OF assms(2) [of e], of w']
    have "set (entries (snd (handler e w'))) \<subseteq> set (entries w') \<union> whole_responses h" .
    with mw Inl w' show ?thesis by (auto simp add: try_catch_def)
  next
    case (Inr a)
    with mw w' show ?thesis by (simp add: try_catch_def)
  qed
qed

lemma writes_whole_offline_lookup:
  "writes_whole h (await (caches_match h k) (\<lambda>r. resolved (to_js r)))"
  by (intro writes_whole_await) simp_all

lemma writes_whole_open_put:
  assumes "network h k = Some r" and "ok r"
  shows "writes_whole h (await (caches_open h n) (\<lambda>cache. cache_put cache k r))"
  using assms by (intro writes_whole_await writes_whole_cache_put) simp_all

lemma writes_whole_handleDocumentRequest: "writes_whole h (handleDocumentRequest h request)"
  unfolding handleDocumentRequest_def
proof (intro writes_whole_try_catch writes_whole_await_fetch)
  fix networkResponse
  assume "network h (url request) = Some networkResponse"
  then show "writes_whole h (if ok networkResponse then
            await (caches_open h CACHE_NAME) (\<lambda>cache.
            await (cache_put cache (url request) networkResponse) (\<lambda>_.
            resolved (Resp networkResponse)))
          else rejected (Error ''Network response not ok''))"
    by (cases "ok networkResponse")
      (simp_all add: writes_whole_await writes_whole_cache_put)
next
  fix error :: exn
  have "writes_whole h (case cachedResponse of
              Some c \<Rightarrow> resolved (Resp c)
            | None \<Rightarrow>
                await (caches_match h (resolve_url h OFFLINE_PAGE)) (\<lambda>r. resolved (to_js r)))"
    for cachedResponse
    by (cases cachedResponse) (simp_all add: writes_whole_offline_lookup)
  then show "writes_whole h (await (caches_match h (url request)) (\<lambda>cachedResponse.
            case cachedResponse of
              Some c \<Rightarrow> resolved (Resp c)
            | None \<Rightarrow>
                await (caches_match h (resolve_url h OFFLINE_PAGE)) (\<lambda>r. resolved (to_js r))))"
    by (intro writes_whole_await) simp_all
qed

lemma writes_whole_handleAssetRequest: "writes_whole h (handleAssetRequest h request)"
  unfolding handleAssetRequest_def
proof (intro writes_whole_await)
  fix cachedResponse
  have store: "writes_whole h (await (if ok networkResponse then
                         await (caches_open h CACHE_NAME) (\<lambda>cache.
                           cache_put cache (url request) networkResponse)
                       else resolved ()) (\<lambda>_. resolved (Resp networkResponse)))"
    if "network h (url request) = Some networkResponse" for networkResponse
    using that
    by (cases "ok networkResponse") (simp_all add: writes_whole_await writes_whole_open_put)
  have net: "writes_whole h (try_catch
             (await (fetch h (url request)) (\<lambda>networkResponse.
                await (if ok networkResponse then
                         await (caches_open h CACHE_NAME) (\<lambda>cache.
                           cache_put cache (url request) networkResponse)
                       else resolved ()) (\<lambda>_.
                resolved (Resp networkResponse))))
             (\<lambda>error. resolved (Resp \<lparr>status = 404, statusText = ''Not Found'',
                                      body = ''Asset not available offline''\<rparr>)))"
    by (intro writes_whole_try_catch writes_whole_await_fetch store) simp_all
  show "writes_whole h (case cachedResponse of
         Some c \<Rightarrow> resolved (Resp c)
       | None \<Rightarrow>
           try_catch
             (await (fetch h (url request)) (\<lambda>networkResponse.
                await (if ok networkResponse then
                         await (caches_open h CACHE_NAME) (\<lambda>cache.
                           cache_put cache (url request) networkResponse)
                       else resolved ()) (\<lambda>_.
                resolved (Resp networkResponse))))
             (\<lambda>error. resolved (Resp \<lparr>status = 404, statusText = ''Not Found'',
                                      body = ''Asset not available offline''\<rparr>)))"
    using net by (cases cachedResponse) simp_all
qed simp

lemma writes_whole_handleRequest: "writes_whole h (handleRequest h request)"
  unfolding handleRequest_def
proof (intro writes_whole_try_catch writes_whole_await)
  show "writes_whole h (if destination request = ''document'' then handleDocumentRequest h request
        else handleAssetRequest h request)"
    by (simp add: writes_whole_handleDocumentRequest writes_whole_handleAssetRequest)
next
  fix error u
  show "writes_whole h (if destination request = ''document'' then
              await (caches_match h (resolve_url h OFFLINE_PAGE)) (\<lambda>r. resolved (to_js r))
            else resolved (Resp \<lparr>status = 503, statusText = '''', body = ''Offline''\<rparr>))"
    by (simp add: writes_whole_offline_lookup)
qed simp

lemma entries_fetch_listener:
  "set (entries (snd (fetch_listener h request w))) \<subseteq> set (entries w) \<union> whole_responses h"
proof -
  from writes_whole_handleRequest [of h request]
  have "set (entries (snd (handleRequest h request w))) \<subseteq> set (entries w) \<union> whole_responses h"
    by (simp add: writes_whole_def)
  then show ?thesis
    by (cases "handleRequest h request w") (simp add: fetch_listener_def)
qed

lemma fetch_all_sound:
  "fetch_all h us = Some es \<Longrightarrow> (u, r) \<in> set es \<Longrightarrow>
   network h u = Some r \<and> complete_success r"
proof (induction us arbitrary: es)
  case Nil
  then show ?case by simp
next
  case (Cons a us)
  then show ?case
    by (auto simp add: complete_success_def split: option.splits if_splits)
qed

lemma fetch_all_whole:
  "fetch_all h us = Some es \<Longrightarrow> set (map (\<lambda>(u, r). (n, u, r)) es) \<subseteq> whole_responses h"
  using fetch_all_sound [of h us es]
  by (auto simp add: whole_responses_def)

lemma entries_put_all:
  "set (entries (put_all n es w)) \<subseteq> set (entries w) \<union> set (map (\<lambda>(u, r). (n, u, r)) es)"
proof (induction n es w rule: put_all.induct)
  case (1 n w)
  then show ?case by simp
next
  case (2 n u r es w)
  from 2 entries_cache_put [of n u r w] show ?case by auto
qed

lemma entries_opened [simp]: "entries (opened w) = entries w"
  by (simp add: opened_def entries_def)

lemma entries_install:
  "set (entries (install h w)) \<subseteq> set (entries w) \<union> whole_responses h"
proof (cases "open_fails h")
  case True
  then show ?thesis by (simp add: install_cases)
next
  case False
  show ?thesis
  proof (cases "fetch_all h (map (resolve_url h) STATIC_CACHE)")
    case None
    with False show ?thesis by (simp add: install_cases)
  next
    case (Some es)
    from entries_put_all [of CACHE_NAME es
        "foldl (\<lambda>w u. emit (Fetch u) w) (opened w) (map (resolve_url h) STATIC_CACHE)"]
      fetch_all_whole [OF Some, of CACHE_NAME] False Some
    show ?thesis by (auto simp add: install_cases)
  qed
qed

lemma entries_activate:
  "set (entries (activate w)) \<subseteq> set (entries w)"
  by (auto simp add: entries_def caches_activate)

lemma entries_message:
  "entries (snd (message ev w)) = entries w"
  by (simp add: message_def split: msg_data.split option.split list.split)

text \<open>A response that \<open>put\<close> has written is found whole under its URL.\<close>

lemma same_resource_refl [simp]: "same_resource k k"
  by (simp add: same_resource_def)

lemma cache_match_append:
  "cache_match (a @ b) k = (case cache_match a k of Some r \<Rightarrow> Some r | None \<Rightarrow> cache_match b k)"
  by (induction a) auto

lemma cache_match_filter_none:
  "cache_match (filter (\<lambda>(k', _). \<not> same_resource k' k) c) k = None"
  by (induction c) auto

lemma cache_match_put_entry:
  "cache_match (put_entry c k r) k = Some r"
  by (simp add: put_entry_def cache_match_append cache_match_filter_none)

lemma cache_of_map_put:
  "n \<in> fst ` set cs \<Longrightarrow>
   cache_of (map (\<lambda>(n', c). if n' = n then (n', put_entry c k r) else (n', c)) cs) n =
     put_entry (cache_of cs n) k r"
proof (induction cs)
  case Nil
  then show ?case by simp
next
  case (Cons x cs)
  obtain a c where x: "x = (a, c)" by (cases x)
  show ?case
  proof (cases "a = n")
    case True
    with x show ?thesis by simp
  next
    case False
    with Cons.prems x have "n \<in> fst ` set cs" by auto
    with Cons.IH False x show ?thesis by simp
  qed
qed

lemma fetched_response_stored_whole:
  assumes "network h (url request) = Some r" and "complete_success r" and "\<not> open_fails h"
    and "destination request = ''document''
         \<or> (\<not> match_fails h (url request) \<and> caches_lookup (caches w) (url request) = None)"
  shows "cache_match (cache_of (caches (snd (handleRequest h request w))) CACHE_NAME)
           (url request) = Some r"
proof -
  from assms(2) have r: "ok r" "status r \<noteq> 206"
    by (simp_all add: complete_success_def)
  show ?thesis
  proof (cases "destination request = ''document''")
    case True
    with assms(1,3) r show ?thesis
      by (simp add: handleRequest_def handleDocumentRequest_def promise_defs host_defs
          cache_of_map_put cache_match_put_entry)
  next
    case False
    with assms(4) have m: "\<not> match_fails h (url request)"
      "caches_lookup (caches w) (url request) = None" by simp_all
    with False assms(1,3) r show ?thesis
      by (simp add: handleRequest_def handleAssetRequest_def promise_defs host_defs
          cache_of_map_put cache_match_put_entry)
  qed
qed

text \<open>A lookup leaves the fragment of the URL out.\<close>

lemma fragment_hit:
  "caches_lookup (caches stocked) (site @ ''/#top'') = Some page200"
  by (simp add: example_defs)

subsection \<open>The response of handleRequest (C1)\<close>

lemma handleRequest_is_response:
  assumes "caches_lookup (caches w) (resolve_url h OFFLINE_PAGE) = Some p"
    and "\<not> match_fails h (resolve_url h OFFLINE_PAGE)"
  shows "is_response (fst (handleRequest h request w))"
  using assms
  by (auto simp add: handleRequest_def handleDocumentRequest_def handleAssetRequest_def
      promise_defs host_defs split: option.split sum.split prod.split if_splits)

lemma broken_storage_rejects:
  "fst (handleRequest broken_storage_host home_request stocked) = Inl StorageError"
  by (simp add: gateway_defs promise_defs host_defs example_defs emit_def)

text \<open>
  C1 (no propagation). The property: for every admitted request the value of
  \<open>handleRequest\<close> is a Response object, whatever the network does and whether or not
  the offline page is in the store. The code at a concrete input: the worker was
  installed while the fetch of \<^verbatim>\<open>/offline.html\<close> was rejected, so the batch stored
  nothing; the page then navigates to \<^verbatim>\<open>/\<close> while offline. The fetch listener
  admits the request and responds with \<^verbatim>\<open>undefined\<close>, the result of looking up
  the absent offline page, which is not a Response object.
\<close>

theorem missing_offline_page_undefined:
  "fst (fetch_listener offline_host home_request (install partial_host fresh)) =
     RespondWith (Inr Undefined)
   \<and> \<not> is_response (fst (handleRequest offline_host home_request (install partial_host fresh)))"
  by (simp add: gateway_defs promise_defs host_defs example_defs emit_def)

subsection \<open>Install is all or nothing (C2)\<close>

text \<open>
  C2 (install), as the code has it. When the fetch of one entry of the static manifest
  is rejected, the install logs the failure as its last call, has asked to skip waiting,
  and inserts none of the entries: every lookup in the store, and every named cache,
  is as it was before the install.
\<close>

theorem install_all_or_nothing:
  assumes "p \<in> set STATIC_CACHE"
    and "network h (resolve_url h p) = None"
  shows "caches_lookup (caches (install h w)) k = caches_lookup (caches w) k
         \<and> cache_of (caches (install h w)) n = cache_of (caches w) n
         \<and> (\<exists>e. last (trace (install h w)) = ConsoleError ''Failed to cache resources:'' e)
         \<and> SkipWaiting \<in> set (drop (length (trace w)) (trace (install h w)))"
proof -
  from assms have none: "fetch_all h (map (resolve_url h) STATIC_CACHE) = None"
    by (intro fetch_all_None [of "resolve_url h p"]) simp_all
  show ?thesis
  proof (cases "open_fails h")
    case True
    then show ?thesis by (simp add: install_cases)
  next
    case False
    with none have i: "install h w =
        emit (ConsoleError ''Failed to cache resources:'' (TypeError ''Request failed''))
          (foldl (\<lambda>w u. emit (Fetch u) w) (opened w) (map (resolve_url h) STATIC_CACHE))"
      by (simp add: install_cases)
    have t: "trace (opened w) =
        trace w @ [ConsoleLog [''ServiceWorker installing...''], CachesOpen CACHE_NAME,
                   SkipWaiting, ConsoleLog [''Caching static resources'']]"
      by (simp add: opened_def)
    from i t show ?thesis
      by (simp add: caches_opened)
  qed
qed

text \<open>The hypotheses of C2 hold for \<^verbatim>\<open>/offline.html\<close> on the host that rejects it.\<close>

theorem install_all_or_nothing_witness:
  "''/offline.html'' \<in> set STATIC_CACHE
   \<and> network partial_host (resolve_url partial_host ''/offline.html'') = None
   \<and> caches_lookup (caches (install partial_host stocked)) (site @ ''/index.html'') = None
   \<and> cache_of (caches (install partial_host stocked)) CACHE_NAME = cache_of (caches stocked) CACHE_NAME
   \<and> last (trace (install partial_host stocked)) =
        ConsoleError ''Failed to cache resources:'' (TypeError ''Request failed'')"
proof -
  have a: "''/offline.html'' \<in> set STATIC_CACHE"
    by (simp add: STATIC_CACHE_def)
  have b: "network partial_host (resolve_url partial_host ''/offline.html'') = None"
    by (simp add: partial_host_def resolve_url_def)
  have c: "caches_lookup (caches stocked) (site @ ''/index.html'') = None"
    by (simp add: example_defs)
  have d: "last (trace (install partial_host stocked)) =
        ConsoleError ''Failed to cache resources:'' (TypeError ''Request failed'')"
    by (simp add: install_cases example_defs)
  from install_all_or_nothing [OF a b, of stocked "site @ ''/index.html''" CACHE_NAME] a b c d
  show ?thesis by simp
qed

text \<open>
  C2 as stated (best-effort population) fails: the fetch of \<^verbatim>\<open>/offline.html\<close> is
  rejected, the fetch of \<^verbatim>\<open>/index.html\<close> succeeds, and after the install
  \<^verbatim>\<open>/index.html\<close> is not in the store.
\<close>

theorem install_not_best_effort:
  "network partial_host (resolve_url partial_host ''/offline.html'') = None
   \<and> network partial_host (resolve_url partial_host ''/index.html'') = Some page200
   \<and> caches_lookup (caches (install partial_host fresh))
        (resolve_url partial_host ''/index.html'') = None
   \<and> cache_of (caches (install partial_host fresh)) CACHE_NAME = []"
  by (simp add: install_cases opened_def example_defs emit_def)

subsection \<open>The admission filter (C3)\<close>

lemma fetch_listener_non_GET:
  "method' request \<noteq> ''GET'' \<Longrightarrow> fetch_listener h request w = (PassThrough, w)"
  by (simp add: fetch_listener_def)

lemma fetch_listener_not_prefix:
  "\<not> prefix (origin h) (url request) \<Longrightarrow> fetch_listener h request w = (PassThrough, w)"
  by (simp add: fetch_listener_def)

lemma fetch_listener_admitted:
  "method' request = ''GET'' \<Longrightarrow> prefix (origin h) (url request) \<Longrightarrow>
   fetch_listener h request w =
     (RespondWith (fst (handleRequest h request w)), snd (handleRequest h request w))"
  by (simp add: fetch_listener_def split: prod.split)

text \<open>
  C3 (admission filter). The property: a request whose URL's origin differs from the
  worker's origin is never handled by a caching strategy. The code at a concrete input:
  the worker's origin is \<^verbatim>\<open>https://eternadata.github.io\<close> and the page loads a script
  from \<^verbatim>\<open>https://eternadata.github.io.evil.example\<close>. The origins differ, but the
  URL starts with the text of the worker's origin, so the fetch listener responds
  through the cache-first strategy and stores the foreign response.
\<close>

theorem lookalike_origin_handled:
  "url_origin (url lookalike_request) = ''https://eternadata.github.io.evil.example''
   \<and> origin online_host = ''https://eternadata.github.io''
   \<and> url_origin (url lookalike_request) \<noteq> origin online_host
   \<and> fst (fetch_listener online_host lookalike_request fresh) = RespondWith (Inr (Resp page200))
   \<and> caches_lookup (caches (snd (fetch_listener online_host lookalike_request fresh)))
        (url lookalike_request) = Some page200"
  by (simp add: gateway_defs promise_defs host_defs example_defs emit_def url_origin_def
      put_entry_def)

subsection \<open>Network first for documents, cache first for assets (C4)\<close>

lemma handleDocumentRequest_first:
  "\<exists>rest. trace (snd (handleDocumentRequest h request w)) = trace w @ Fetch (url request) # rest"
  by (simp add: handleDocumentRequest_def promise_defs host_defs
      split: option.split sum.split prod.split)

lemma handleAssetRequest_first:
  "\<exists>rest. trace (snd (handleAssetRequest h request w)) = trace w @ CachesMatch (url request) # rest"
  by (simp add: handleAssetRequest_def promise_defs host_defs
      split: option.split sum.split prod.split)

lemma try_catch_trace:
  assumes "\<exists>rest. trace (snd (m w)) = trace w @ ev # rest"
    and "\<And>e w'. \<exists>more. trace (snd (handler e w')) = trace w' @ more"
  shows "\<exists>rest. trace (snd (try_catch m handler w)) = trace w @ ev # rest"
proof -
  from assms(1) obtain rest where r: "trace (snd (m w)) = trace w @ ev # rest" by blast
  show ?thesis
  proof (cases "m w")
    case (Pair v w')
    then show ?thesis
    proof (cases v)
      case (Inl e)
      from assms(2) obtain more where "trace (snd (handler e w')) = trace w' @ more" by blast
      with Pair Inl r show ?thesis by (simp add: try_catch_def)
    next
      case (Inr a)
      with Pair r show ?thesis by (simp add: try_catch_def)
    qed
  qed
qed

text \<open>
  C4 (classification). The first host call of \<open>handleRequest\<close> is the network fetch of
  the request when its destination is \<^verbatim>\<open>document\<close>, and the cache lookup of the
  request for every other destination; whatever else it calls comes after.
\<close>

theorem handleRequest_order:
  "\<exists>rest. trace (snd (handleRequest h request w)) =
      trace w @ (if destination request = ''document'' then Fetch (url request)
                 else CachesMatch (url request)) # rest"
  unfolding handleRequest_def
  apply (rule try_catch_trace)
  using handleDocumentRequest_first handleAssetRequest_first apply simp
  apply (simp add: promise_defs host_defs)
  done

text \<open>C4 on a document request while offline and on an uncached asset while online.\<close>

theorem handleRequest_order_witness:
  "trace (snd (handleRequest offline_host home_request stocked)) =
     [Fetch (site @ ''/''), CachesMatch (site @ ''/'')]
   \<and> trace (snd (handleRequest online_host
                    (logo_request\<lparr>url := site @ ''/assets/new.png''\<rparr>) stocked)) =
     [CachesMatch (site @ ''/assets/new.png''), Fetch (site @ ''/assets/new.png''),
      CachesOpen CACHE_NAME, CachePut CACHE_NAME (site @ ''/assets/new.png'') page200]"
  using handleRequest_order [of offline_host home_request stocked]
    handleRequest_order [of online_host "logo_request\<lparr>url := site @ ''/assets/new.png''\<rparr>" stocked]
  by (simp add: gateway_defs promise_defs host_defs example_defs emit_def)

subsection \<open>The fallback of a document request (C5)\<close>

text \<open>
  What the fallback returns, for every host and store: when the fetch of a document
  request is rejected or answered with a response that is not ok, and the storage
  answers its lookups, \<open>handleRequest\<close> returns the snapshot the store holds for the
  request when there is one, and otherwise the outcome of looking up the offline page,
  which is \<^verbatim>\<open>undefined\<close> on a store that holds none; the store is unchanged.
\<close>

lemma document_fallback:
  assumes "destination request = ''document''"
    and "network h (url request) = None \<or> (\<exists>nr. network h (url request) = Some nr \<and> \<not> ok nr)"
    and "\<not> match_fails h (url request)"
    and "\<not> match_fails h (resolve_url h OFFLINE_PAGE)"
  shows "fst (handleRequest h request w) =
           Inr (case caches_lookup (caches w) (url request) of
                  Some c \<Rightarrow> Resp c
                | None \<Rightarrow> to_js (caches_lookup (caches w) (resolve_url h OFFLINE_PAGE)))
         \<and> caches (snd (handleRequest h request w)) = caches w"
  using assms
  by (auto simp add: handleRequest_def handleDocumentRequest_def promise_defs host_defs
      split: option.split)

text \<open>
  On a store holding \<^verbatim>\<open>/\<close> and the offline page: the cached page while offline, the
  offline page for an uncached document, while offline and on a 500 answer.
\<close>

lemma document_fallback_stocked:
  "fst (handleRequest offline_host home_request stocked) = Inr (Resp page200)
   \<and> fst (handleRequest offline_host
            (home_request\<lparr>url := site @ ''/about.html''\<rparr>) stocked) = Inr (Resp offline_page)
   \<and> fst (handleRequest failing_server_host
            (home_request\<lparr>url := site @ ''/about.html''\<rparr>) stocked) = Inr (Resp offline_page)"
  using document_fallback [of home_request offline_host stocked]
    document_fallback [of "home_request\<lparr>url := site @ ''/about.html''\<rparr>" offline_host stocked]
    document_fallback [of "home_request\<lparr>url := site @ ''/about.html''\<rparr>" failing_server_host stocked]
  by (simp add: example_defs to_js_def)

text \<open>
  C5 (document fallback). The property: when the fetch of a document request is
  rejected or the response is not ok, the cached snapshot of the request is returned
  if the store has one, and otherwise the Offline Page snapshot from the store. The
  code at a concrete input: the worker was installed while the fetch of
  \<^verbatim>\<open>/offline.html\<close> was rejected, so the batch stored nothing and the store holds
  neither \<^verbatim>\<open>/\<close> nor the offline page. A navigation to \<^verbatim>\<open>/\<close> is then answered 500
  by the server, or its fetch is rejected. In both cases the lookups are answered, the
  request has no snapshot, and \<open>handleRequest\<close> resolves to \<^verbatim>\<open>undefined\<close>: no
  Offline Page snapshot is returned. This is the defect of C1, reached through the
  fallback.
\<close>

theorem document_fallback_without_offline_page:
  "destination home_request = ''document''
   \<and> network failing_server_host (url home_request) = Some error500 \<and> \<not> ok error500
   \<and> network offline_host (url home_request) = None
   \<and> caches_lookup (caches (install partial_host fresh)) (url home_request) = None
   \<and> caches_lookup (caches (install partial_host fresh))
        (resolve_url offline_host OFFLINE_PAGE) = None
   \<and> fst (handleRequest failing_server_host home_request (install partial_host fresh)) =
        Inr Undefined
   \<and> fst (handleRequest offline_host home_request (install partial_host fresh)) =
        Inr Undefined"
  by (simp add: gateway_defs promise_defs host_defs example_defs emit_def)

subsection \<open>Synthesized failure responses (C6)\<close>

text \<open>
  C6 (synthesized failures). An asset request that is not in the store and whose fetch
  is rejected is answered with 404 \<^verbatim>\<open>Not Found\<close> and the body
  \<^verbatim>\<open>Asset not available offline\<close>; and whenever the handling of a non-document request
  is rejected, \<open>handleRequest\<close> answers with 503 and the body \<^verbatim>\<open>Offline\<close>.
\<close>

theorem asset_failure_responses:
  "(destination request \<noteq> ''document'' \<and> \<not> match_fails h (url request)
      \<and> caches_lookup (caches w) (url request) = None \<and> network h (url request) = None
    \<longrightarrow> fst (handleRequest h request w) =
          Inr (Resp \<lparr>status = 404, statusText = ''Not Found'',
                     body = ''Asset not available offline''\<rparr>))
   \<and> (destination request \<noteq> ''document'' \<and> fst (handleAssetRequest h request w) = Inl e
    \<longrightarrow> fst (handleRequest h request w) =
          Inr (Resp \<lparr>status = 503, statusText = [], body = ''Offline''\<rparr>))"
  by (auto simp add: handleRequest_def handleAssetRequest_def promise_defs host_defs
      split: option.split sum.split prod.split if_splits)

text \<open>
  C6 on an uncached logo while offline (404), and on a storage that rejects the lookup,
  where the asset strategy is rejected and the answer is the 503.
\<close>

theorem asset_failure_responses_witness:
  "destination logo_request \<noteq> ''document''
   \<and> \<not> match_fails offline_host (url logo_request)
   \<and> caches_lookup (caches fresh) (url logo_request) = None
   \<and> network offline_host (url logo_request) = None
   \<and> fst (handleRequest offline_host logo_request fresh) =
        Inr (Resp \<lparr>status = 404, statusText = ''Not Found'',
                   body = ''Asset not available offline''\<rparr>)
   \<and> fst (handleAssetRequest broken_storage_host logo_request stocked) = Inl StorageError
   \<and> fst (handleRequest broken_storage_host logo_request stocked) =
        Inr (Resp \<lparr>status = 503, statusText = [], body = ''Offline''\<rparr>)"
proof -
  have a: "fst (handleAssetRequest broken_storage_host logo_request stocked) = Inl StorageError"
    by (simp add: handleAssetRequest_def promise_defs host_defs example_defs)
  have b: "destination logo_request \<noteq> ''document''"
    by (simp add: example_defs)
  have c: "\<not> match_fails offline_host (url logo_request)
           \<and> caches_lookup (caches fresh) (url logo_request) = None
           \<and> network offline_host (url logo_request) = None"
    by (simp add: example_defs)
  from asset_failure_responses [of logo_request offline_host fresh] b c
  have d: "fst (handleRequest offline_host logo_request fresh) =
        Inr (Resp \<lparr>status = 404, statusText = ''Not Found'',
                   body = ''Asset not available offline''\<rparr>)"
    by simp
  from asset_failure_responses [of logo_request broken_storage_host stocked StorageError] a b
  have e: "fst (handleRequest broken_storage_host logo_request stocked) =
        Inr (Resp \<lparr>status = 503, statusText = [], body = ''Offline''\<rparr>)"
    by simp
  from a b c d e show ?thesis by simp
qed

subsection \<open>Version isolation (C7)\<close>

text \<open>
  C7 (version isolation). After an activation the storage holds exactly the caches named
  \<open>CACHE_NAME\<close>, with their entries untouched: no other name is retained, and the
  current one is retained when it was there, as it is after an install that could open
  the store.
\<close>

theorem activate_retains_current_only:
  "caches (activate w) = filter (\<lambda>(n, c). n = CACHE_NAME) (caches w)
   \<and> set (map fst (caches (activate w))) \<subseteq> {CACHE_NAME}
   \<and> (CACHE_NAME \<in> set (map fst (caches w))
        \<longrightarrow> set (map fst (caches (activate w))) = {CACHE_NAME})
   \<and> (\<not> open_fails h
        \<longrightarrow> set (map fst (caches (activate (install h w)))) = {CACHE_NAME})"
proof -
  have sub: "\<And>v. set (map fst (caches (activate v))) \<subseteq> {CACHE_NAME}"
    by (auto simp add: caches_activate)
  have keep: "\<And>v. CACHE_NAME \<in> set (map fst (caches v))
                 \<Longrightarrow> set (map fst (caches (activate v))) = {CACHE_NAME}"
    by (force simp add: caches_activate)
  from sub keep install_creates_store show ?thesis
    by (simp add: caches_activate)
qed

text \<open>C7 on a storage with version 0.9.0 beside the current one (scenario 5).\<close>

theorem activate_retains_current_only_witness:
  "CACHE_NAME \<in> set (map fst (caches two_versions))
   \<and> map fst (caches two_versions) = [''eternadata-v0.9.0'', ''eternadata-v1.0.0'']
   \<and> caches (activate two_versions) =
       [(''eternadata-v1.0.0'', [(site @ ''/offline.html'', offline_page)])]
   \<and> \<not> open_fails online_host
   \<and> set (map fst (caches (activate (install online_host two_versions)))) = {CACHE_NAME}"
proof -
  have a: "CACHE_NAME \<in> set (map fst (caches two_versions))"
    by (simp add: two_versions_def)
  have b: "\<not> open_fails online_host"
    by (simp add: online_host_def)
  from activate_retains_current_only [of two_versions online_host] a b show ?thesis
    by (simp add: two_versions_def CACHE_NAME_def)
qed

subsection \<open>Only complete, successful responses are stored (C8)\<close>

text \<open>
  C8 (store invariant). When every snapshot in the store is a complete, successful
  response (status ok and not a 206 part), the same holds after an install, after an
  activation, after the fetch listener has handled any request under any host answers,
  and after any message. No operation leaves a partly written entry: every entry in
  the store after an install or after the fetch listener is an entry that was there
  before or, under its URL, the whole response the network gave for that URL, complete
  and successful (so never one that is not ok, and never a 206 part); an activation
  only removes entries; a message changes none. And where a strategy does store, the
  entry is there in full: after an admitted request whose fetch gave a complete,
  successful response (a document, or an asset the lookup did not find) with the store
  opening, the current cache answers the request's URL with exactly that response.
\<close>

theorem store_holds_successful_responses:
  assumes "store_ok w"
  shows "store_ok (install h w) \<and> store_ok (activate w)
         \<and> store_ok (snd (fetch_listener h request w)) \<and> store_ok (snd (message ev w))
         \<and> set (entries (install h w)) \<subseteq> set (entries w) \<union> whole_responses h
         \<and> set (entries (activate w)) \<subseteq> set (entries w)
         \<and> set (entries (snd (fetch_listener h request w)))
               \<subseteq> set (entries w) \<union> whole_responses h
         \<and> entries (snd (message ev w)) = entries w
         \<and> (method' request = ''GET'' \<and> prefix (origin h) (url request)
              \<and> network h (url request) = Some r \<and> complete_success r \<and> \<not> open_fails h
              \<and> (destination request = ''document''
                  \<or> (\<not> match_fails h (url request)
                      \<and> caches_lookup (caches w) (url request) = None))
            \<longrightarrow> cache_match (cache_of (caches (snd (fetch_listener h request w))) CACHE_NAME)
                   (url request) = Some r)"
proof -
  have a: "set (entries (activate w)) \<subseteq> set (entries w) \<union> whole_responses h"
    using entries_activate [of w] by auto
  have m: "set (entries (snd (message ev w))) \<subseteq> set (entries w) \<union> whole_responses h"
    by (simp add: entries_message)
  have inv: "store_ok (install h w) \<and> store_ok (activate w)
         \<and> store_ok (snd (fetch_listener h request w)) \<and> store_ok (snd (message ev w))"
    using assms store_ok_subset [OF entries_install [of h w]]
      store_ok_subset [OF a] store_ok_subset [OF entries_fetch_listener [of h request w]]
      store_ok_subset [OF m]
    by simp
  have full: "cache_match (cache_of (caches (snd (fetch_listener h request w))) CACHE_NAME)
                   (url request) = Some r"
    if "method' request = ''GET''" and "prefix (origin h) (url request)"
      and "network h (url request) = Some r" and "complete_success r" and "\<not> open_fails h"
      and "destination request = ''document''
           \<or> (\<not> match_fails h (url request) \<and> caches_lookup (caches w) (url request) = None)"
    using fetched_response_stored_whole [OF that(3) that(4) that(5) that(6)] that(1) that(2)
    by (cases "handleRequest h request w") (simp add: fetch_listener_def)
  from inv full show ?thesis
    by (simp add: entries_install entries_activate entries_fetch_listener entries_message)
qed

text \<open>
  C8 on the stocked store: an uncached asset answered 200 is stored whole, one answered
  500 or 206 is not stored, and the store holds complete, successful responses after
  each.
\<close>

theorem store_holds_successful_responses_witness:
  "store_ok stocked
   \<and> store_ok (install online_host stocked)
   \<and> store_ok (activate stocked)
   \<and> complete_success page200 \<and> \<not> complete_success error500 \<and> \<not> complete_success partial206
   \<and> caches_lookup (caches stocked) (site @ ''/assets/new.png'') = None
   \<and> store_ok (snd (fetch_listener online_host
                      (logo_request\<lparr>url := site @ ''/assets/new.png''\<rparr>) stocked))
   \<and> cache_match (cache_of (caches (snd (fetch_listener online_host
                      (logo_request\<lparr>url := site @ ''/assets/new.png''\<rparr>) stocked))) CACHE_NAME)
        (site @ ''/assets/new.png'') = Some page200
   \<and> entries (snd (fetch_listener online_host
                      (logo_request\<lparr>url := site @ ''/assets/new.png''\<rparr>) stocked)) =
        entries stocked @ [(CACHE_NAME, site @ ''/assets/new.png'', page200)]
   \<and> entries (snd (fetch_listener failing_server_host
                      (logo_request\<lparr>url := site @ ''/assets/new.png''\<rparr>) stocked)) = entries stocked
   \<and> entries (snd (fetch_listener range_host
                      (logo_request\<lparr>url := site @ ''/assets/new.png''\<rparr>) stocked)) = entries stocked
   \<and> store_ok (snd (message \<lparr>data = Data (Some ''GET_VERSION''), ports = [1]\<rparr> stocked))"
proof -
  have a: "store_ok stocked"
    by (simp add: store_ok_def entries_def complete_success_def example_defs)
  have b: "entries (snd (fetch_listener online_host
                      (logo_request\<lparr>url := site @ ''/assets/new.png''\<rparr>) stocked)) =
        entries stocked @ [(CACHE_NAME, site @ ''/assets/new.png'', page200)]"
    by (simp add: gateway_defs promise_defs host_defs example_defs entries_def put_entry_def)
  have c: "entries (snd (fetch_listener failing_server_host
                      (logo_request\<lparr>url := site @ ''/assets/new.png''\<rparr>) stocked)) = entries stocked"
    by (simp add: gateway_defs promise_defs host_defs example_defs entries_def)
  have d: "entries (snd (fetch_listener range_host
                      (logo_request\<lparr>url := site @ ''/assets/new.png''\<rparr>) stocked)) = entries stocked"
    by (simp add: gateway_defs promise_defs host_defs example_defs entries_def)
  have e: "complete_success page200 \<and> \<not> complete_success error500
           \<and> \<not> complete_success partial206"
    by (simp add: complete_success_def example_defs)
  have f: "method' (logo_request\<lparr>url := site @ ''/assets/new.png''\<rparr>) = ''GET''
           \<and> prefix (origin online_host) (url (logo_request\<lparr>url := site @ ''/assets/new.png''\<rparr>))
           \<and> network online_host (url (logo_request\<lparr>url := site @ ''/assets/new.png''\<rparr>)) = Some page200
           \<and> \<not> open_fails online_host
           \<and> \<not> match_fails online_host (url (logo_request\<lparr>url := site @ ''/assets/new.png''\<rparr>))
           \<and> caches_lookup (caches stocked) (site @ ''/assets/new.png'') = None"
    by (simp add: example_defs)
  from store_holds_successful_responses [OF a, of online_host
      "logo_request\<lparr>url := site @ ''/assets/new.png''\<rparr>" _ page200] a b c d e f
  show ?thesis
    by simp
qed

subsection \<open>The cache-first hit (C9)\<close>

lemma handleRequest_hit:
  assumes "destination request \<noteq> ''document''"
    and "caches_lookup (caches w) (url request) = Some r"
    and "\<not> match_fails h (url request)"
  shows "handleRequest h request w = (Inr (Resp r), emit (CachesMatch (url request)) w)"
  using assms
  by (simp add: handleRequest_def handleAssetRequest_def promise_defs host_defs)

lemma emit_trace_append:
  "emit ev (w\<lparr>trace := trace w @ evs\<rparr>) = w\<lparr>trace := trace w @ evs @ [ev]\<rparr>"
  by (simp add: emit_def)

text \<open>
  C9 (idempotent cache-first hit). An asset request whose URL is in the store, handled
  any number of times under any host answers with a working lookup, is answered every
  time with the stored snapshot; the only host calls are the lookups (no fetch), and
  the store is unchanged.
\<close>

theorem cache_hit_idempotent:
  assumes "destination request \<noteq> ''document''"
    and "caches_lookup (caches w) (url request) = Some r"
    and "\<forall>h \<in> set hs. \<not> match_fails h (url request)"
  shows "handle_repeatedly hs request w =
           (replicate (length hs) (Inr (Resp r)),
            w\<lparr>trace := trace w @ replicate (length hs) (CachesMatch (url request))\<rparr>)"
  using assms
proof (induction hs arbitrary: w)
  case Nil
  then show ?case by simp
next
  case (Cons h hs)
  let ?w' = "emit (CachesMatch (url request)) w"
  from Cons.prems have step: "handleRequest h request w = (Inr (Resp r), ?w')"
    by (simp add: handleRequest_hit)
  from Cons.prems have "caches_lookup (caches ?w') (url request) = Some r"
    by simp
  with Cons.IH [of ?w'] Cons.prems
  have "handle_repeatedly hs request ?w' =
           (replicate (length hs) (Inr (Resp r)),
            ?w'\<lparr>trace := trace ?w' @ replicate (length hs) (CachesMatch (url request))\<rparr>)"
    by simp
  with step show ?case
    by (simp add: emit_def replicate_append_same)
qed

text \<open>C9 on the cached logo, handled offline, online and against a failing server.\<close>

theorem cache_hit_idempotent_witness:
  "destination logo_request \<noteq> ''document''
   \<and> caches_lookup (caches stocked) (url logo_request) = Some page200
   \<and> \<not> match_fails offline_host (url logo_request)
   \<and> \<not> match_fails online_host (url logo_request)
   \<and> \<not> match_fails failing_server_host (url logo_request)
   \<and> handle_repeatedly [offline_host, online_host, failing_server_host] logo_request stocked =
       ([Inr (Resp page200), Inr (Resp page200), Inr (Resp page200)],
        stocked\<lparr>trace := [CachesMatch (url logo_request), CachesMatch (url logo_request),
                           CachesMatch (url logo_request)]\<rparr>)"
proof -
  have a: "destination logo_request \<noteq> ''document''"
    by (simp add: example_defs)
  have b: "caches_lookup (caches stocked) (url logo_request) = Some page200"
    by (simp add: example_defs)
  have c: "\<forall>h \<in> set [offline_host, online_host, failing_server_host].
             \<not> match_fails h (url logo_request)"
    by (simp add: example_defs)
  have t: "trace stocked = []"
    by (simp add: stocked_def)
  from cache_hit_idempotent [OF a b c] a b c t show ?thesis
    by (simp add: numeral_3_eq_3)
qed

subsection \<open>The message contract (C10)\<close>

text \<open>
  C10 (message contract), as the code has it. A \<^verbatim>\<open>GET_VERSION\<close> message that brings
  a reply port yields exactly one call, the reply \<^verbatim>\<open>{ version: CACHE_NAME }\<close> on its
  first port; a message whose type is a non-empty string other than
  \<^verbatim>\<open>SKIP_WAITING\<close> and \<^verbatim>\<open>GET_VERSION\<close> yields exactly one call, the log of that
  type, and neither a reply nor an exception.
\<close>

theorem message_contract:
  "(data ev = Data (Some ''GET_VERSION'') \<and> ports ev = p # ps
      \<longrightarrow> message ev w = (Inr (), w\<lparr>trace := trace w @ [PostMessage p [(''version'', CACHE_NAME)]]\<rparr>))
   \<and> (data ev = Data (Some t) \<and> t \<noteq> [] \<and> t \<noteq> ''SKIP_WAITING'' \<and> t \<noteq> ''GET_VERSION''
      \<longrightarrow> message ev w = (Inr (), w\<lparr>trace := trace w @ [ConsoleLog [''Unknown message type:'', t]]\<rparr>))"
  by (simp add: message_def emit_def)

text \<open>C10 on a \<^verbatim>\<open>GET_VERSION\<close> with two ports and on a message of type \<^verbatim>\<open>PING\<close>.\<close>

theorem message_contract_witness:
  "message \<lparr>data = Data (Some ''GET_VERSION''), ports = [7, 8]\<rparr> fresh =
     (Inr (), fresh\<lparr>trace := [PostMessage 7 [(''version'', ''eternadata-v1.0.0'')]]\<rparr>)
   \<and> message \<lparr>data = Data (Some ''PING''), ports = [7]\<rparr> fresh =
     (Inr (), fresh\<lparr>trace := [ConsoleLog [''Unknown message type:'', ''PING'']]\<rparr>)"
  using message_contract [where ev = "\<lparr>data = Data (Some ''GET_VERSION''), ports = [7, 8]\<rparr>"
        and p = 7 and ps = "[8]" and w = fresh and t = "''PING''"]
    message_contract [where ev = "\<lparr>data = Data (Some ''PING''), ports = [7]\<rparr>"
        and p = 7 and ps = "[]" and w = fresh and t = "''PING''"]
  by (simp add: fresh_def CACHE_NAME_def)

text \<open>
  C10 as stated (for every message) fails: a \<^verbatim>\<open>GET_VERSION\<close> message without a reply
  port yields no reply and a TypeError, and a message whose type is the empty string is
  not logged.
\<close>

theorem message_without_port_or_type:
  "fst (message \<lparr>data = Data (Some ''GET_VERSION''), ports = []\<rparr> fresh) =
      Inl (TypeError ''Cannot read properties of undefined'')
   \<and> trace (snd (message \<lparr>data = Data (Some ''GET_VERSION''), ports = []\<rparr> fresh)) = []
   \<and> message \<lparr>data = Data (Some []), ports = []\<rparr> fresh = (Inr (), fresh)
   \<and> trace fresh = []"
  by (simp add: message_def fresh_def)

end
